theory Spec2Isabelle
  imports Complex_Main "HOL-Library.Sublist"
begin

section \<open>JavaScript strings and the built-ins the dashboard calls\<close>

text \<open>
  A JavaScript string is a sequence of UTF-16 code units; a code unit is modelled as a
  natural number. \<open>js\<close> turns an ASCII literal into its code units. The code units
  written as numbers below are 10 for the line feed, 43 for \<open>+\<close>, 45 for \<open>-\<close>, 47 for
  \<open>/\<close>, 59 for \<open>;\<close>, 48 to 57 for the digits and 233 for the e with acute accent.
\<close>

type_synonym js_string = "nat list"

definition js :: "string \<Rightarrow> js_string" where
  "js s = map of_char s"

text \<open>
  \<open>String.prototype.trim\<close> removes WhiteSpace and LineTerminator code units from both
  ends; \<open>parseInt\<close> skips the same set at the start.
\<close>

definition isWhiteSpace :: "nat \<Rightarrow> bool" where
  "isWhiteSpace c \<longleftrightarrow>
     c \<in> {9, 10, 11, 12, 13, 32, 160, 5760, 8232, 8233, 8239, 8287, 12288, 65279}
     \<or> (8192 \<le> c \<and> c \<le> 8202)"

definition trimStart :: "js_string \<Rightarrow> js_string" where
  "trimStart s = dropWhile isWhiteSpace s"

definition trim :: "js_string \<Rightarrow> js_string" where
  "trim s = rev (dropWhile isWhiteSpace (rev (dropWhile isWhiteSpace s)))"

text \<open>
  \<open>s.split(sep)\<close> for a separator of one code unit: the pieces between the separators,
  always at least one piece.
\<close>

fun split :: "nat \<Rightarrow> js_string \<Rightarrow> js_string list" where
  "split sep [] = [[]]"
| "split sep (c # cs) =
     (if c = sep then [] # split sep cs
      else (case split sep cs of [] \<Rightarrow> [[c]] | w # ws \<Rightarrow> (c # w) # ws))"

text \<open>
  \<open>parseInt(s, 10)\<close>: skip leading white space, read an optional sign, then the longest
  prefix of decimal digits; \<open>None\<close> is NaN (no digit). The value is exact here; the
  source rounds to a double, which is the same number below \<open>2 ^ 53\<close>.
\<close>

definition isDigit :: "nat \<Rightarrow> bool" where
  "isDigit c \<longleftrightarrow> 48 \<le> c \<and> c \<le> 57"

definition digitsValue :: "js_string \<Rightarrow> int" where
  "digitsValue ds = foldl (\<lambda>acc c. acc * 10 + (int c - 48)) 0 ds"

definition parseInt10 :: "js_string \<Rightarrow> int option" where
  "parseInt10 inputString =
     (let S = trimStart inputString;
          sign = (if S \<noteq> [] \<and> hd S = 45 then - 1 else 1 :: int);
          S' = (if S \<noteq> [] \<and> (hd S = 43 \<or> hd S = 45) then tl S else S);
          Z = takeWhile isDigit S'
      in if Z = [] then None else Some (sign * digitsValue Z))"

text \<open>\<open>parseInt(undefined, 10)\<close> reads the string "undefined".\<close>

definition parseInt10_arg :: "js_string option \<Rightarrow> int option" where
  "parseInt10_arg a = parseInt10 (case a of None \<Rightarrow> js ''undefined'' | Some s \<Rightarrow> s)"

text \<open>\<open>x || 0\<close> on a number: NaN and zero give 0.\<close>

definition orZero :: "int option \<Rightarrow> int" where
  "orZero x = (case x of None \<Rightarrow> 0 | Some n \<Rightarrow> if n = 0 then 0 else n)"

text \<open>An array read \<open>a[i]\<close>: \<open>None\<close> is \<open>undefined\<close>.\<close>

definition at_index :: "'a list \<Rightarrow> nat \<Rightarrow> 'a option" where
  "at_index xs i = (if i < length xs then Some (xs ! i) else None)"

text \<open>Number to string of a non-negative integer, as a template literal renders it.\<close>

fun toString :: "nat \<Rightarrow> js_string" where
  "toString n = (if n < 10 then [48 + n] else toString (n div 10) @ [48 + n mod 10])"

declare toString.simps [simp del]

section \<open>The data model\<close>

type_synonym Proprietaire = "js_string \<rightharpoonup> js_string"

record Historique =
  Matricule :: js_string
  DateMaree :: js_string
  Mois :: int
  Annee :: int

text \<open>The field \<open>id\<close> of a merged record is \<open>id_row\<close> here.\<close>

record MergedData =
  Barque :: js_string
  Matricule :: js_string
  DateMaree :: js_string
  Proprietaire :: js_string
  Mois :: int
  Annee :: int
  id_row :: js_string

text \<open>The property names of the owner records that the dashboard reads.\<close>

definition key_Matricule :: js_string where
  "key_Matricule = js ''Matricule''"

definition key_Barque :: js_string where
  "key_Barque = js ''Barque''"

definition key_Proprietaire :: js_string where
  "key_Proprietaire = js ''Propri'' @ [233] @ js ''taire''"

definition Inconnu :: js_string where
  "Inconnu = js ''Inconnu''"

section \<open>Reading the history file\<close>

definition dateStr :: "js_string \<Rightarrow> js_string" where
  "dateStr line =
     (let values = split 59 line
      in case at_index values 1 of None \<Rightarrow> []
         | Some v \<Rightarrow> if v \<noteq> [] then trim v else [])"

definition dateParts :: "js_string \<Rightarrow> js_string list" where
  "dateParts line = split 47 (dateStr line)"

definition parse_line :: "js_string \<Rightarrow> Historique" where
  "parse_line line =
     (let values = split 59 line
      in \<lparr> Historique.Matricule =
             (case at_index values 0 of None \<Rightarrow> []
              | Some v \<Rightarrow> if v \<noteq> [] then trim v else []),
           Historique.DateMaree = dateStr line,
           Historique.Mois = orZero (parseInt10_arg (at_index (dateParts line) 0)),
           Historique.Annee = orZero (parseInt10_arg (at_index (dateParts line) 1)) \<rparr>)"

definition parse_historique :: "js_string \<Rightarrow> Historique list" where
  "parse_historique text =
     map parse_line (filter (\<lambda>line. trim line \<noteq> []) (split 10 text))"

section \<open>The dashboard state\<close>

text \<open>The values held by the component's \<open>useState\<close> hooks.\<close>

record dashboard =
  proprietairesData :: "Proprietaire list"
  historiqueData :: "Historique list"
  mergedData :: "MergedData list"
  selectedProprietaire :: js_string
  barqueFilter :: js_string
  startDate :: js_string
  endDate :: js_string
  currentPage :: int

definition initial :: dashboard where
  "initial = \<lparr> proprietairesData = [], historiqueData = [], mergedData = [],
     selectedProprietaire = js ''all'', barqueFilter = [], startDate = [], endDate = [],
     currentPage = 1 \<rparr>"

definition itemsPerPage :: int where
  "itemsPerPage = 10"

section \<open>Merging owners and history\<close>

text \<open>\<open>proprietaire[k] || 'Inconnu'\<close>: an absent or empty value gives the placeholder.\<close>

definition orInconnu :: "js_string option \<Rightarrow> js_string" where
  "orInconnu v = (case v of None \<Rightarrow> Inconnu | Some s \<Rightarrow> if s = [] then Inconnu else s)"

text \<open>The object pushed for a history row and the owner found for it.\<close>

definition merged_record :: "Proprietaire \<Rightarrow> Historique \<Rightarrow> nat \<Rightarrow> MergedData" where
  "merged_record proprietaire h idCounter =
     \<lparr> Barque = orInconnu (proprietaire key_Barque),
       Matricule = Historique.Matricule h,
       DateMaree = Historique.DateMaree h,
       Proprietaire = orInconnu (proprietaire key_Proprietaire),
       Mois = Historique.Mois h,
       Annee = Historique.Annee h,
       id_row = js ''row-'' @ toString idCounter \<rparr>"

text \<open>
  One pass of the \<open>forEach\<close> body: the state of the loop is the array \<open>merged\<close> and
  \<open>idCounter\<close>. The owner is the first one in the list whose \<open>Matricule\<close> is the
  row's; an owner record without that property never matches.
\<close>

definition find_proprietaire :: "Proprietaire list \<Rightarrow> Historique \<Rightarrow> Proprietaire option" where
  "find_proprietaire ps h = find (\<lambda>p. p key_Matricule = Some (Historique.Matricule h)) ps"

definition merge_step ::
  "Proprietaire list \<Rightarrow> Historique \<Rightarrow> MergedData list \<times> nat \<Rightarrow> MergedData list \<times> nat" where
  "merge_step ps h acc =
     (case find_proprietaire ps h of
        None \<Rightarrow> acc
      | Some proprietaire \<Rightarrow>
          (fst acc @ [merged_record proprietaire h (snd acc)], Suc (snd acc)))"

definition merge :: "Proprietaire list \<Rightarrow> Historique list \<Rightarrow> MergedData list" where
  "merge ps hs = fst (fold (merge_step ps) hs ([], 0))"

text \<open>The effect that depends on \<open>proprietairesData\<close> and \<open>historiqueData\<close>.\<close>

definition merge_effect :: "dashboard \<Rightarrow> dashboard" where
  "merge_effect st =
     (if length (proprietairesData st) > 0 \<and> length (historiqueData st) > 0
      then st\<lparr> mergedData := merge (proprietairesData st) (historiqueData st),
               currentPage := 1 \<rparr>
      else st)"

text \<open>
  The two upload handlers store the parsed rows; the effect then runs. The owner rows
  are what the CSV library returns for the file. The toasts and the console output of
  the handlers are left out.
\<close>

definition handleProprietairesUpload :: "Proprietaire list \<Rightarrow> dashboard \<Rightarrow> dashboard" where
  "handleProprietairesUpload data st = merge_effect (st\<lparr> proprietairesData := data \<rparr>)"

definition handleHistoriqueUpload :: "js_string \<Rightarrow> dashboard \<Rightarrow> dashboard" where
  "handleHistoriqueUpload text st =
     merge_effect (st\<lparr> historiqueData := parse_historique text \<rparr>)"

section \<open>What the engine supplies\<close>

text \<open>
  Two built-ins are read here on a part of their domain only: \<open>toLowerCase\<close> on the
  strings described in the section on filtering, and \<open>new Date(s)\<close> on the values of a
  date input. What the engine gives on every other string is taken as a parameter.
\<close>

record engine =
  lower_other :: "js_string \<Rightarrow> js_string"
  parse_other :: "js_string \<Rightarrow> int option"

text \<open>
  An engine for the evaluations below; their strings are all in the part of the domain
  that is read here, so the two functions are never called.
\<close>

definition plain_engine :: engine where
  "plain_engine = \<lparr> lower_other = (\<lambda>s. s), parse_other = (\<lambda>s. None) \<rparr>"

section \<open>Dates\<close>

text \<open>
  A \<open>Date\<close> is its time value, milliseconds since the epoch in UTC; \<open>None\<close> is the
  invalid date (NaN). Local time is UTC plus a fixed offset \<open>tz\<close> in minutes; changes
  of the offset during the year are not modelled. The functions are the abstract
  operations of the language standard under their names there.
\<close>

definition msPerDay :: int where
  "msPerDay = 86400000"

definition DayFromYear :: "int \<Rightarrow> int" where
  "DayFromYear y =
     365 * (y - 1970) + (y - 1969) div 4 - (y - 1901) div 100 + (y - 1601) div 400"

definition InLeapYear :: "int \<Rightarrow> bool" where
  "InLeapYear y \<longleftrightarrow> y mod 4 = 0 \<and> (y mod 100 \<noteq> 0 \<or> y mod 400 = 0)"

definition monthStart :: "int \<Rightarrow> int \<Rightarrow> int" where
  "monthStart y mn =
     [0, 31, 59, 90, 120, 151, 181, 212, 243, 273, 304, 334] ! nat mn
       + (if InLeapYear y \<and> 2 \<le> mn then 1 else 0)"

definition DaysInMonth :: "int \<Rightarrow> int \<Rightarrow> int" where
  "DaysInMonth y mn =
     (if mn = 1 then (if InLeapYear y then 29 else 28)
      else [31, 28, 31, 30, 31, 30, 31, 31, 30, 31, 30, 31] ! nat mn)"

definition MakeDay :: "int \<Rightarrow> int \<Rightarrow> int \<Rightarrow> int" where
  "MakeDay year month date =
     (let ym = year + month div 12; mn = month mod 12
      in DayFromYear ym + monthStart ym mn + date - 1)"

definition TimeClip :: "int \<Rightarrow> int option" where
  "TimeClip t = (if \<bar>t\<bar> > 8640000000000000 then None else Some t)"

text \<open>\<open>new Date(year, month, date)\<close>: local midnight; years 0 to 99 mean 1900 to 1999.\<close>

definition new_Date_ymd :: "int \<Rightarrow> int \<Rightarrow> int \<Rightarrow> int \<Rightarrow> int option" where
  "new_Date_ymd tz year month date =
     (let yr = (if 0 \<le> year \<and> year \<le> 99 then 1900 + year else year)
      in TimeClip (MakeDay yr month date * msPerDay - tz * 60000))"

text \<open>
  \<open>new Date(s)\<close>. For \<open>YYYY-MM-DD\<close> with a month from 01 to 12 and a day of that
  month, the form of the language standard that a date input gives, it is midnight UTC
  of that day. Every other string is left to the engine.
\<close>

definition new_Date_string :: "engine \<Rightarrow> js_string \<Rightarrow> int option" where
  "new_Date_string E s =
     (if length s = 10 \<and> s ! 4 = 45 \<and> s ! 7 = 45
         \<and> list_all isDigit (take 4 s) \<and> list_all isDigit (take 2 (drop 5 s))
         \<and> list_all isDigit (drop 8 s)
      then (let y = digitsValue (take 4 s);
                m = digitsValue (take 2 (drop 5 s));
                d = digitsValue (drop 8 s)
            in if 1 \<le> m \<and> m \<le> 12 \<and> 1 \<le> d \<and> d \<le> DaysInMonth y (m - 1)
               then TimeClip (MakeDay y (m - 1) d * msPerDay) else parse_other E s)
      else parse_other E s)"

definition setHours :: "int \<Rightarrow> int \<Rightarrow> int \<Rightarrow> int \<Rightarrow> int \<Rightarrow> int option \<Rightarrow> int option" where
  "setHours tz h m sec ms d =
     (case d of None \<Rightarrow> None
      | Some t \<Rightarrow>
          (let day = (t + tz * 60000) div msPerDay
           in TimeClip (day * msPerDay + (h * 3600000 + m * 60000 + sec * 1000 + ms)
                          - tz * 60000)))"

text \<open>\<open>a >= b\<close> and \<open>a <= b\<close> on dates: false when either is invalid.\<close>

definition date_ge :: "int option \<Rightarrow> int option \<Rightarrow> bool" where
  "date_ge a b = (case (a, b) of (Some x, Some y) \<Rightarrow> x \<ge> y | _ \<Rightarrow> False)"

definition date_le :: "int option \<Rightarrow> int option \<Rightarrow> bool" where
  "date_le a b = (case (a, b) of (Some x, Some y) \<Rightarrow> x \<le> y | _ \<Rightarrow> False)"

section \<open>Filtering\<close>

text \<open>
  \<open>toLowerCase\<close> is the lower-case mapping of Unicode. It is read here on two kinds of
  strings. On a string of code units up to U+00FF it works unit by unit: the capitals
  A to Z and U+00C0 to U+00DE, without the multiplication sign U+00D7, go 32 up. On a
  string of Greek letters, U+0391 to U+03A9 and U+03B1 to U+03C9, the capitals go 32 up
  as well, but a capital sigma (931) that ends the string and does not start it becomes
  the final sigma (962) instead of the sigma (963). Every other string is left to the
  engine.
\<close>

definition latin1 :: "js_string \<Rightarrow> bool" where
  "latin1 s \<longleftrightarrow> list_all (\<lambda>c. c \<le> 255) s"

definition toLowerCase_unit :: "nat \<Rightarrow> nat" where
  "toLowerCase_unit c =
     (if (65 \<le> c \<and> c \<le> 90) \<or> (192 \<le> c \<and> c \<le> 222 \<and> c \<noteq> 215) then c + 32 else c)"

definition greek_letter :: "nat \<Rightarrow> bool" where
  "greek_letter c \<longleftrightarrow>
     (913 \<le> c \<and> c \<le> 929) \<or> (931 \<le> c \<and> c \<le> 937) \<or> (945 \<le> c \<and> c \<le> 969)"

definition greek_unit :: "nat \<Rightarrow> nat" where
  "greek_unit c = (if 913 \<le> c \<and> c \<le> 937 then c + 32 else c)"

definition greek_lower :: "js_string \<Rightarrow> js_string" where
  "greek_lower s =
     (case rev s of [] \<Rightarrow> []
      | c # before \<Rightarrow>
          map greek_unit (rev before)
            @ [if c = 931 \<and> before \<noteq> [] then 962 else greek_unit c])"

definition toLowerCase :: "engine \<Rightarrow> js_string \<Rightarrow> js_string" where
  "toLowerCase E s =
     (if latin1 s then map toLowerCase_unit s
      else if list_all greek_letter s then greek_lower s
      else lower_other E s)"

fun includes_js :: "js_string \<Rightarrow> js_string \<Rightarrow> bool" where
  "includes_js [] search = (search = [])"
| "includes_js (c # cs) search = (prefix search (c # cs) \<or> includes_js cs search)"

definition filterProprietaire :: "js_string \<Rightarrow> MergedData list \<Rightarrow> MergedData list" where
  "filterProprietaire sel data =
     (if sel \<noteq> [] \<and> sel \<noteq> js ''all''
      then filter (\<lambda>item. Proprietaire item = sel) data else data)"

definition filterBarque :: "engine \<Rightarrow> js_string \<Rightarrow> MergedData list \<Rightarrow> MergedData list" where
  "filterBarque E bf data =
     (if bf \<noteq> []
      then (let lowerFilter = toLowerCase E bf
            in filter (\<lambda>item. includes_js (toLowerCase E (Matricule item)) lowerFilter
                            \<or> includes_js (toLowerCase E (Barque item)) lowerFilter) data)
      else data)"

text \<open>
  The date predicate; \<open>start\<close> and \<open>end'\<close> are \<open>None\<close> for \<open>null\<close>, and hold a date
  otherwise.
\<close>

definition inRange :: "int \<Rightarrow> int option option \<Rightarrow> int option option \<Rightarrow> MergedData \<Rightarrow> bool" where
  "inRange tz start end' item =
     (let itemDate = new_Date_ymd tz (Annee item) (Mois item - 1) 1
      in case (start, end') of
           (Some s, Some e) \<Rightarrow> date_ge itemDate s \<and> date_le itemDate e
         | (Some s, None) \<Rightarrow> date_ge itemDate s
         | (None, Some e) \<Rightarrow> date_le itemDate e
         | (None, None) \<Rightarrow> True)"

definition filterDate ::
  "engine \<Rightarrow> int \<Rightarrow> js_string \<Rightarrow> js_string \<Rightarrow> MergedData list \<Rightarrow> MergedData list" where
  "filterDate E tz sd ed data =
     (if sd \<noteq> [] \<or> ed \<noteq> []
      then (let start = (if sd \<noteq> [] then Some (setHours tz 0 0 0 0 (new_Date_string E sd))
                         else None);
                end' = (if ed \<noteq> [] then Some (setHours tz 23 59 59 999 (new_Date_string E ed))
                       else None)
            in filter (inRange tz start end') data)
      else data)"

definition filteredData :: "engine \<Rightarrow> int \<Rightarrow> dashboard \<Rightarrow> MergedData list" where
  "filteredData E tz st =
     filterDate E tz (startDate st) (endDate st)
       (filterBarque E (barqueFilter st)
          (filterProprietaire (selectedProprietaire st) (mergedData st)))"

section \<open>Pagination\<close>

text \<open>\<open>Array.prototype.slice(start, end)\<close>, negative indices counting from the end.\<close>

definition slice :: "'a list \<Rightarrow> int \<Rightarrow> int \<Rightarrow> 'a list" where
  "slice xs start end' =
     (let len = int (length xs);
          k = (if start < 0 then max (len + start) 0 else min start len);
          final = (if end' < 0 then max (len + end') 0 else min end' len)
      in take (nat (final - k)) (drop (nat k) xs))"

definition totalPages :: "'a list \<Rightarrow> int" where
  "totalPages fd = \<lceil>real (length fd) / real_of_int itemsPerPage\<rceil>"

definition currentData :: "'a list \<Rightarrow> int \<Rightarrow> 'a list" where
  "currentData fd page = slice fd ((page - 1) * itemsPerPage) (page * itemsPerPage)"

section \<open>Copying the results\<close>







section \<open>Notions used to state the properties\<close>

text \<open>A history row has an owner when some owner record carries its matricule.\<close>

definition has_owner :: "Proprietaire list \<Rightarrow> Historique \<Rightarrow> bool" where
  "has_owner ps h \<longleftrightarrow> (\<exists>p \<in> set ps. p key_Matricule = Some (Historique.Matricule h))"

text \<open>The history row that a merged record carries.\<close>

definition trip_of :: "MergedData \<Rightarrow> Historique" where
  "trip_of r = \<lparr> Historique.Matricule = Matricule r, Historique.DateMaree = DateMaree r,
                 Historique.Mois = Mois r, Historique.Annee = Annee r \<rparr>"





text \<open>
  A component of a date has a leading integer when, after white space and one optional
  sign, it starts with a decimal digit.
\<close>

definition leading_integer :: "js_string \<Rightarrow> bool" where
  "leading_integer c \<longleftrightarrow>
     (let s = dropWhile isWhiteSpace c;
          s' = (case s of [] \<Rightarrow> [] | x # xs \<Rightarrow> if x = 43 \<or> x = 45 then xs else s)
      in case s' of [] \<Rightarrow> False | d # _ \<Rightarrow> isDigit d)"

section \<open>The worked example\<close>

text \<open>
  One owner, matricule 123-456, boat Barque1, owner Jean Dupont; a history file of two
  lines, for 123-456 and for 999-999. Both files are uploaded into the initial state.
\<close>

definition example_owners :: "Proprietaire list" where
  "example_owners =
     [[key_Matricule \<mapsto> js ''123-456'', key_Barque \<mapsto> js ''Barque1'',
       key_Proprietaire \<mapsto> js ''Jean Dupont'']]"

definition example_text :: js_string where
  "example_text = js ''123-456;01/01/2024'' @ [10] @ js ''999-999;02/02/2024''"

definition example_trips :: "Historique list" where
  "example_trips =
     [\<lparr> Historique.Matricule = js ''123-456'', Historique.DateMaree = js ''01/01/2024'',
        Historique.Mois = 1, Historique.Annee = 1 \<rparr>,
      \<lparr> Historique.Matricule = js ''999-999'', Historique.DateMaree = js ''02/02/2024'',
        Historique.Mois = 2, Historique.Annee = 2 \<rparr>]"

definition example_state :: dashboard where
  "example_state =
     handleHistoriqueUpload example_text (handleProprietairesUpload example_owners initial)"



definition example_record :: MergedData where
  "example_record =
     \<lparr> Barque = js ''Barque1'', Matricule = js ''123-456'', DateMaree = js ''01/01/2024'',
       Proprietaire = js ''Jean Dupont'', Mois = 1, Annee = 1, id_row = js ''row-0'' \<rparr>"

section \<open>Filtering keeps a subsequence\<close>

lemma subseq_filterProprietaire: "subseq (filterProprietaire sel data) data"
  by (simp add: filterProprietaire_def)

lemma subseq_filterBarque: "subseq (filterBarque E bf data) data"
  by (simp add: filterBarque_def Let_def)

lemma subseq_filterDate: "subseq (filterDate E tz sd ed data) data"
  by (simp add: filterDate_def Let_def)

text \<open>
  C5. Whatever the filters, the filtered list is a subsequence of the merged list: its
  records are records of the merged list, in the same relative order. The filter is a
  function of the state and returns a list; it changes neither.
\<close>

theorem filteredData_subseq:
  "subseq (filteredData E tz st) (mergedData st)
   \<and> set (filteredData E tz st) \<subseteq> set (mergedData st)"
proof -
  have "subseq (filterBarque E (barqueFilter st)
                 (filterProprietaire (selectedProprietaire st) (mergedData st)))
               (mergedData st)"
    using subseq_filterBarque subseq_filterProprietaire
    by (rule subseq_order.order_trans)
  with subseq_filterDate have a: "subseq (filteredData E tz st) (mergedData st)"
    unfolding filteredData_def by (rule subseq_order.order_trans)
  then show ?thesis by (auto dest: list_emb_set)
qed

section \<open>Pagination\<close>

lemma totalPages_div: "totalPages fd = (int (length fd) + 9) div 10"
proof -
  have "\<lceil>real (length fd) / 10\<rceil> = \<lceil>real_of_int (int (length fd)) / real_of_int 10\<rceil>"
    by simp
  also have "\<dots> = - ((- int (length fd)) div 10)"
    by (simp only: ceiling_divide_eq_div)
  also have "\<dots> = (int (length fd) + 9) div 10" by linarith
  finally show ?thesis by (simp add: totalPages_def itemsPerPage_def)
qed

lemma take_min_length: "take (min a (length ys)) ys = take a ys"
  by (simp add: min_def)

lemma currentData_take_drop:
  assumes "1 \<le> p"
  shows "currentData fd p = take 10 (drop (10 * nat (p - 1)) fd)"
proof -
  define s where "s = nat (p - 1)"
  have p: "p = int s + 1" using assms by (simp add: s_def)
  show ?thesis
  proof (cases "10 * s \<le> length fd")
    case True
    have "currentData fd p =
            take (nat (min (int s * 10 + 10) (int (length fd)) - int s * 10)) (drop (10 * s) fd)"
      using True
      by (simp add: currentData_def slice_def itemsPerPage_def Let_def p min_def
          nat_mult_distrib algebra_simps)
    also have "nat (min (int s * 10 + 10) (int (length fd)) - int s * 10)
                 = min 10 (length (drop (10 * s) fd))"
      using True by (auto simp add: min_def)
    also have "take \<dots> (drop (10 * s) fd) = take 10 (drop (10 * s) fd)"
      by (rule take_min_length)
    finally show ?thesis by (simp add: s_def)
  next
    case False
    then have "currentData fd p = []"
      by (simp add: currentData_def slice_def itemsPerPage_def Let_def p min_def algebra_simps)
    moreover have "take 10 (drop (10 * s) fd) = []" using False by simp
    ultimately show ?thesis by (simp add: s_def)
  qed
qed

lemma concat_chunks:
  "concat (map (\<lambda>k. take n (drop (n * k) xs)) [0..<m]) = take (n * m) xs"
proof (induction m)
  case 0
  then show ?case by simp
next
  case (Suc m)
  have "take (n * m) xs @ take n (drop (n * m) xs) = take (n * m + n) xs"
    by (simp add: take_add)
  with Suc show ?case by (simp add: add.commute)
qed

lemma ceil10_bounds:
  "(n::int) \<le> 10 * ((n + 9) div 10) \<and> 10 * ((n + 9) div 10 - 1) < n"
  by presburger

lemma pages_shift:
  "map (\<lambda>p. currentData fd (int p)) [1..<Suc m]
     = map (\<lambda>k. take 10 (drop (10 * k) fd)) [0..<m]"
proof -
  have "[1..<Suc m] = map Suc [0..<m]" by (simp add: map_Suc_upt)
  then have "map (\<lambda>p. currentData fd (int p)) [1..<Suc m]
               = map (\<lambda>k. currentData fd (int (Suc k))) [0..<m]"
    by (simp add: comp_def del: upt_Suc)
  also have "\<dots> = map (\<lambda>k. take 10 (drop (10 * k) fd)) [0..<m]"
    by (simp add: currentData_take_drop del: upt_Suc)
  finally show ?thesis .
qed

text \<open>
  C2, as the code has it. \<open>totalPages\<close> is the ceiling of the count over the page size
  of 10, that is the least number of pages of 10 that hold every record. It is at least
  1 when there is a record, and 0 when there is none: the code takes no maximum with 1
  (the pager that shows it is rendered only when the filtered list has a record).
\<close>

theorem totalPages_ceiling:
  "totalPages fd = \<lceil>real (length fd) / 10\<rceil>
   \<and> int (length fd) \<le> 10 * totalPages fd \<and> 10 * (totalPages fd - 1) < int (length fd)
   \<and> (fd \<noteq> [] \<longrightarrow> 1 \<le> totalPages fd)
   \<and> (fd = [] \<longrightarrow> totalPages fd = 0)"
proof (intro conjI impI)
  show "totalPages fd = \<lceil>real (length fd) / 10\<rceil>"
    by (simp add: totalPages_def itemsPerPage_def)
  show "int (length fd) \<le> 10 * totalPages fd"
    unfolding totalPages_div by (simp add: ceil10_bounds)
  show "10 * (totalPages fd - 1) < int (length fd)"
    unfolding totalPages_div by (simp only: ceil10_bounds)
  show "1 \<le> totalPages fd" if "fd \<noteq> []"
  proof -
    from that have "0 < length fd" by simp
    then show ?thesis unfolding totalPages_div by linarith
  qed
  show "totalPages fd = 0" if "fd = []" using that by (simp add: totalPages_div)
qed

theorem totalPages_ceiling_witness:
  "totalPages [example_record] = \<lceil>real (length [example_record]) / 10\<rceil>
   \<and> [example_record] \<noteq> [] \<and> 1 \<le> totalPages [example_record]
   \<and> totalPages ([] :: MergedData list) = 0"
  using totalPages_ceiling [of "[example_record]"]
    totalPages_ceiling [of "[] :: MergedData list"]
  by simp

text \<open>
  C2 as stated fails on the empty list: there \<open>totalPages\<close> is 0, not at least 1.
\<close>

theorem totalPages_empty_not_ge_1:
  "\<not> (totalPages ([] :: MergedData list) = \<lceil>real (length ([] :: MergedData list)) / 10\<rceil>
       \<and> 1 \<le> totalPages ([] :: MergedData list))"
  by (simp add: totalPages_div)

text \<open>
  C6. The slices shown for the pages 1 to \<open>totalPages\<close>, put one after the other, are
  the filtered list itself, so every record is on exactly one page; every page before the
  last holds 10 records and the last one between 1 and 10.
\<close>

theorem pages_cover:
  "concat (map (\<lambda>p. currentData fd (int p)) [1..<Suc (nat (totalPages fd))]) = fd
   \<and> (\<forall>p. 1 \<le> p \<and> p < totalPages fd \<longrightarrow> length (currentData fd p) = 10)
   \<and> (fd \<noteq> [] \<longrightarrow> 1 \<le> length (currentData fd (totalPages fd))
                  \<and> length (currentData fd (totalPages fd)) \<le> 10)"
proof (intro conjI allI impI)
  have "length fd \<le> 10 * nat (totalPages fd)"
    unfolding totalPages_div by linarith
  then show "concat (map (\<lambda>p. currentData fd (int p)) [1..<Suc (nat (totalPages fd))]) = fd"
    by (simp only: pages_shift concat_chunks take_all)
next
  fix p assume p: "1 \<le> p \<and> p < totalPages fd"
  then have "10 * nat (p - 1) + 10 \<le> length fd"
    unfolding totalPages_div by linarith
  with p show "length (currentData fd p) = 10"
    by (simp add: currentData_take_drop)
next
  assume "fd \<noteq> []"
  then have l: "0 < length fd" by simp
  then have t: "1 \<le> totalPages fd" unfolding totalPages_div by linarith
  have "10 * nat (totalPages fd - 1) < length fd"
    using l unfolding totalPages_div by linarith
  then show "1 \<le> length (currentData fd (totalPages fd))"
    by (simp add: currentData_take_drop [OF t])
  show "length (currentData fd (totalPages fd)) \<le> 10"
    by (simp add: currentData_take_drop [OF t])
qed

theorem pages_cover_witness:
  "concat (map (\<lambda>p. currentData (replicate 25 example_record) (int p))
             [1..<Suc (nat (totalPages (replicate 25 example_record)))])
     = replicate 25 example_record
   \<and> totalPages (replicate 25 example_record) = 3
   \<and> length (currentData (replicate 25 example_record) 1) = 10
   \<and> length (currentData (replicate 25 example_record) 2) = 10
   \<and> 1 \<le> length (currentData (replicate 25 example_record) 3)
   \<and> length (currentData (replicate 25 example_record) 3) \<le> 10"
proof -
  have t: "totalPages (replicate 25 example_record) = 3"
    by (simp add: totalPages_div)
  have n: "replicate 25 example_record \<noteq> []" by simp
  show ?thesis
    using pages_cover [of "replicate 25 example_record"] n unfolding t by simp
qed

text \<open>The subsequence property on the record of the worked example, with a text filter.\<close>

theorem filteredData_subseq_witness:
  "subseq (filteredData plain_engine 0
             (initial\<lparr> mergedData := [example_record], barqueFilter := js ''123'' \<rparr>))
     [example_record]
   \<and> set (filteredData plain_engine 0
             (initial\<lparr> mergedData := [example_record], barqueFilter := js ''123'' \<rparr>))
       \<subseteq> {example_record}"
  using filteredData_subseq
    [of plain_engine 0 "initial\<lparr> mergedData := [example_record], barqueFilter := js ''123'' \<rparr>"]
  by simp

section \<open>The merge\<close>

lemma find_proprietaire_None: "find_proprietaire ps h = None \<longleftrightarrow> \<not> has_owner ps h"
  by (auto simp: find_proprietaire_def has_owner_def find_None_iff)

lemma merge_fold:
  "fold (merge_step ps) hs (acc, n) =
     (acc @ map (\<lambda>(i, h). merged_record (the (find_proprietaire ps h)) h i)
              (zip [n..<n + length (filter (has_owner ps) hs)] (filter (has_owner ps) hs)),
      n + length (filter (has_owner ps) hs))"
proof (induction hs arbitrary: acc n)
  case Nil
  then show ?case by simp
next
  case (Cons h hs)
  show ?case
  proof (cases "find_proprietaire ps h")
    case None
    then have "\<not> has_owner ps h" by (simp add: find_proprietaire_None)
    with None Cons show ?thesis by (simp add: merge_step_def)
  next
    case (Some p)
    then have ho: "has_owner ps h" using find_proprietaire_None [of ps h] by simp
    let ?F = "filter (has_owner ps) hs"
    have step: "merge_step ps h (acc, n) = (acc @ [merged_record p h n], Suc n)"
      using Some by (simp add: merge_step_def)
    have upt: "[n..<Suc (n + length ?F)] = n # [Suc n..<Suc (n + length ?F)]"
      by (rule upt_conv_Cons) simp
    show ?thesis
      using ho Some by (simp add: step Cons.IH upt del: upt_Suc)
  qed
qed

lemma merge_closed:
  "merge ps hs = map (\<lambda>(i, h). merged_record (the (find_proprietaire ps h)) h i)
                   (zip [0..<length (filter (has_owner ps) hs)] (filter (has_owner ps) hs))"
  by (simp add: merge_def merge_fold)

lemma length_merge: "length (merge ps hs) = length (filter (has_owner ps) hs)"
  by (simp add: merge_closed)

lemma merge_nth:
  assumes "i < length (merge ps hs)"
  shows "merge ps hs ! i = merged_record (the (find_proprietaire ps (filter (has_owner ps) hs ! i)))
                             (filter (has_owner ps) hs ! i) i"
  using assms by (simp add: merge_closed)

lemma trip_of_merged_record: "trip_of (merged_record p h i) = h"
  by (cases h) (simp add: trip_of_def merged_record_def)

lemma merge_trips: "map trip_of (merge ps hs) = filter (has_owner ps) hs"
proof -
  have "map trip_of (merge ps hs) = map snd (zip [0..<length (filter (has_owner ps) hs)] (filter (has_owner ps) hs))"
    by (simp add: merge_closed trip_of_merged_record case_prod_unfold comp_def)
  then show ?thesis by simp
qed

lemma merge_ids:
  "map id_row (merge ps hs) = map (\<lambda>i. js ''row-'' @ toString i) [0..<length (merge ps hs)]"
proof -
  let ?F = "filter (has_owner ps) hs"
  have "map id_row (merge ps hs) = map (\<lambda>x. js ''row-'' @ toString (fst x)) (zip [0..<length ?F] ?F)"
    by (simp add: merge_closed merged_record_def case_prod_unfold comp_def)
  also have "\<dots> = map (\<lambda>i. js ''row-'' @ toString i) (map fst (zip [0..<length ?F] ?F))"
    by (simp only: map_map comp_def)
  also have "map fst (zip [0..<length ?F] ?F) = [0..<length ?F]"
    by simp
  finally show ?thesis by (simp only: length_merge)
qed

lemma find_proprietaire_first:
  assumes "has_owner ps h"
  shows "\<exists>j < length ps. find_proprietaire ps h = Some (ps ! j)
           \<and> (ps ! j) key_Matricule = Some (Historique.Matricule h)
           \<and> (\<forall>k < j. (ps ! k) key_Matricule \<noteq> Some (Historique.Matricule h))"
proof -
  from assms obtain p where "find_proprietaire ps h = Some p"
    using find_proprietaire_None [of ps h] by auto
  then show ?thesis
    unfolding find_proprietaire_def find_Some_iff by auto
qed

lemma digitsValue_snoc: "digitsValue (ds @ [c]) = digitsValue ds * 10 + (int c - 48)"
  by (simp add: digitsValue_def)

lemma toString_value: "digitsValue (toString n) = int n"
proof (induction n rule: toString.induct)
  case (1 n)
  show ?case
  proof (cases "n < 10")
    case True
    then show ?thesis by (simp add: toString.simps [of n] digitsValue_def)
  next
    case False
    with 1 have "digitsValue (toString (n div 10)) = int (n div 10)" by simp
    with False show ?thesis
      by (simp add: toString.simps [of n] digitsValue_snoc zdiv_int zmod_int)
  qed
qed

lemma toString_digits: "list_all isDigit (toString n)"
proof (induction n rule: toString.induct)
  case (1 n)
  show ?case
  proof (cases "n < 10")
    case True
    then show ?thesis by (simp add: toString.simps [of n] isDigit_def)
  next
    case False
    with 1 have "list_all isDigit (toString (n div 10))" by simp
    moreover have "n mod 10 \<le> 9" by linarith
    then have "isDigit (48 + n mod 10)" by (simp add: isDigit_def)
    ultimately show ?thesis using False
      by (simp add: toString.simps [of n])
  qed
qed

text \<open>
  C4. The merge gives one record per history row that has an owner, in the order of the
  rows, each carrying its row's matricule, date, month and year; rows without an owner
  give no record, and the merge has no failing branch. The owner used is the first in
  the list whose matricule is the row's; the record carries that owner's boat name and
  owner name, or the placeholder \<open>Inconnu\<close> when the value is empty or absent.
\<close>

theorem merge_joins_first_owner:
  "map trip_of (merge ps hs) = filter (has_owner ps) hs
   \<and> (\<forall>i < length (merge ps hs). \<exists>j < length ps.
         (ps ! j) key_Matricule = Some (Matricule (merge ps hs ! i))
         \<and> (\<forall>k < j. (ps ! k) key_Matricule \<noteq> Some (Matricule (merge ps hs ! i)))
         \<and> Barque (merge ps hs ! i) =
             (case (ps ! j) key_Barque of None \<Rightarrow> js ''Inconnu''
              | Some v \<Rightarrow> if v = [] then js ''Inconnu'' else v)
         \<and> Proprietaire (merge ps hs ! i) =
             (case (ps ! j) key_Proprietaire of None \<Rightarrow> js ''Inconnu''
              | Some v \<Rightarrow> if v = [] then js ''Inconnu'' else v))"
proof (intro conjI allI impI)
  show "map trip_of (merge ps hs) = filter (has_owner ps) hs" by (rule merge_trips)
next
  fix i assume i: "i < length (merge ps hs)"
  let ?h = "filter (has_owner ps) hs ! i"
  from i have "i < length (filter (has_owner ps) hs)" by (simp add: length_merge)
  then have "?h \<in> set (filter (has_owner ps) hs)" by (rule nth_mem)
  then have "has_owner ps ?h" unfolding set_filter by blast
  then obtain j where j: "j < length ps" "find_proprietaire ps ?h = Some (ps ! j)"
    "(ps ! j) key_Matricule = Some (Historique.Matricule ?h)"
    "\<forall>k < j. (ps ! k) key_Matricule \<noteq> Some (Historique.Matricule ?h)"
    using find_proprietaire_first by blast
  have r: "merge ps hs ! i = merged_record (ps ! j) ?h i"
    using merge_nth [OF i] j(2) by simp
  show "\<exists>j < length ps.
         (ps ! j) key_Matricule = Some (Matricule (merge ps hs ! i))
         \<and> (\<forall>k < j. (ps ! k) key_Matricule \<noteq> Some (Matricule (merge ps hs ! i)))
         \<and> Barque (merge ps hs ! i) =
             (case (ps ! j) key_Barque of None \<Rightarrow> js ''Inconnu''
              | Some v \<Rightarrow> if v = [] then js ''Inconnu'' else v)
         \<and> Proprietaire (merge ps hs ! i) =
             (case (ps ! j) key_Proprietaire of None \<Rightarrow> js ''Inconnu''
              | Some v \<Rightarrow> if v = [] then js ''Inconnu'' else v)"
    using j(1,3,4) unfolding r
    by (intro exI [of _ j]) (simp add: merged_record_def orInconnu_def Inconnu_def split: option.split)
qed

text \<open>
  C10. The record at position \<open>i\<close> of the merge has the id \<open>row-\<close> followed by the
  decimal digits of \<open>i\<close>: the counter starts at 0 in every run. So two runs on the same
  owners and rows give the same list, ids included, whatever the rest of the state.
\<close>

theorem merge_row_ids:
  "map id_row (merge ps hs) = map (\<lambda>i. js ''row-'' @ toString i) [0..<length (merge ps hs)]
   \<and> (\<forall>i. digitsValue (toString i) = int i \<and> list_all isDigit (toString i))
   \<and> (proprietairesData st = proprietairesData st' \<and> historiqueData st = historiqueData st'
        \<and> proprietairesData st \<noteq> [] \<and> historiqueData st \<noteq> []
       \<longrightarrow> mergedData (merge_effect st) = mergedData (merge_effect st'))"
proof (intro conjI allI impI)
  show "map id_row (merge ps hs)
          = map (\<lambda>i. js ''row-'' @ toString i) [0..<length (merge ps hs)]"
    by (rule merge_ids)
next
  fix i
  show "digitsValue (toString i) = int i" by (rule toString_value)
  show "list_all isDigit (toString i)" by (rule toString_digits)
next
  assume a: "proprietairesData st = proprietairesData st' \<and> historiqueData st = historiqueData st'
        \<and> proprietairesData st \<noteq> [] \<and> historiqueData st \<noteq> []"
  then have "mergedData (merge_effect st) = merge (proprietairesData st) (historiqueData st)"
    by (auto simp add: merge_effect_def)
  moreover from a
  have "mergedData (merge_effect st') = merge (proprietairesData st) (historiqueData st)"
    by (auto simp add: merge_effect_def)
  ultimately show "mergedData (merge_effect st) = mergedData (merge_effect st')" by simp
qed


subsection \<open>The worked example, merged\<close>

lemma example_owner_fields:
  "(example_owners ! 0) key_Matricule = Some (js ''123-456'')"
  "(example_owners ! 0) key_Barque = Some (js ''Barque1'')"
  "(example_owners ! 0) key_Proprietaire = Some (js ''Jean Dupont'')"
  by (simp_all add: example_owners_def key_Matricule_def key_Barque_def key_Proprietaire_def js_def)

lemma example_has_owner:
  "filter (has_owner example_owners) example_trips = [example_trips ! 0]"
  by (simp add: has_owner_def example_owners_def example_trips_def key_Matricule_def
      key_Barque_def key_Proprietaire_def js_def)

lemma merge_example: "merge example_owners example_trips = [example_record]"
proof -
  have "find_proprietaire example_owners (example_trips ! 0) = Some (example_owners ! 0)"
    by (simp add: find_proprietaire_def example_owners_def example_trips_def key_Matricule_def
        key_Barque_def key_Proprietaire_def js_def)
  then show ?thesis
    by (simp add: merge_closed example_has_owner example_owner_fields merged_record_def
        orInconnu_def example_record_def toString.simps [of 0])
       (simp add: example_trips_def js_def)
qed

theorem merge_joins_first_owner_witness:
  "map trip_of (merge example_owners example_trips) = [example_trips ! 0]
   \<and> length (merge example_owners example_trips) = 1
   \<and> Barque (merge example_owners example_trips ! 0) = js ''Barque1''
   \<and> Proprietaire (merge example_owners example_trips ! 0) = js ''Jean Dupont''"
proof -
  let ?M = "merge example_owners example_trips"
  note t = merge_joins_first_owner [of example_owners example_trips]
  from t have m: "map trip_of ?M = [example_trips ! 0]"
    by (simp only: example_has_owner)
  from arg_cong [OF m, of length] have l: "length ?M = 1" by simp
  have lo: "length example_owners = 1" by (simp add: example_owners_def)
  from conjunct2 [OF t, rule_format, of 0] l lo
  obtain j where j: "j < 1"
    "Barque (?M ! 0) =
       (case (example_owners ! j) key_Barque of None \<Rightarrow> js ''Inconnu''
        | Some v \<Rightarrow> if v = [] then js ''Inconnu'' else v)"
    "Proprietaire (?M ! 0) =
       (case (example_owners ! j) key_Proprietaire of None \<Rightarrow> js ''Inconnu''
        | Some v \<Rightarrow> if v = [] then js ''Inconnu'' else v)"
    by auto
  from j(1) have j0: "j = 0" by simp
  have "Barque (?M ! 0) = js ''Barque1''"
    using j(2) unfolding j0 example_owner_fields by (simp add: js_def)
  moreover have "Proprietaire (?M ! 0) = js ''Jean Dupont''"
    using j(3) unfolding j0 example_owner_fields by (simp add: js_def)
  ultimately show ?thesis using m l by simp
qed

theorem merge_row_ids_witness:
  "map id_row (merge example_owners example_trips) = [js ''row-0'']
   \<and> digitsValue (toString 0) = 0
   \<and> mergedData (merge_effect (initial\<lparr> proprietairesData := example_owners, historiqueData := example_trips \<rparr>))
     = mergedData (merge_effect (initial\<lparr> proprietairesData := example_owners, historiqueData := example_trips, currentPage := 2 \<rparr>))"
proof -
  have l: "length (merge example_owners example_trips) = 1" by (simp add: merge_example)
  have ne: "example_owners \<noteq> [] \<and> example_trips \<noteq> []" by (simp add: example_owners_def example_trips_def)
  show ?thesis
    using merge_row_ids [of example_owners example_trips
        "initial\<lparr> proprietairesData := example_owners, historiqueData := example_trips \<rparr>"
        "initial\<lparr> proprietairesData := example_owners, historiqueData := example_trips, currentPage := 2 \<rparr>"]
      ne
    by (simp add: l toString.simps [of 0] js_def digitsValue_def)
qed

section \<open>Reading the history file of the worked example\<close>

lemmas eval_defs = js_def at_index_def trim_def trimStart_def isWhiteSpace_def isDigit_def
  digitsValue_def parseInt10_def parseInt10_arg_def orZero_def

lemma example_lines:
  "split 10 example_text = [js ''123-456;01/01/2024'', js ''999-999;02/02/2024'']"
  by (simp add: example_text_def js_def)

lemma line1_values: "split 59 (js ''123-456;01/01/2024'') = [js ''123-456'', js ''01/01/2024'']"
  by (simp add: js_def)

lemma line1_dateStr: "dateStr (js ''123-456;01/01/2024'') = js ''01/01/2024''"
  by (simp add: dateStr_def line1_values) (simp add: eval_defs)

lemma line1_dateParts: "dateParts (js ''123-456;01/01/2024'') = [js ''01'', js ''01'', js ''2024'']"
  by (simp add: dateParts_def line1_dateStr) (simp add: js_def)

lemma parseInt10_01: "parseInt10 (js ''01'') = Some 1"
  by (simp add: eval_defs)

lemma parseInt10_02: "parseInt10 (js ''02'') = Some 2"
  by (simp add: eval_defs)

lemma parse_line1: "parse_line (js ''123-456;01/01/2024'') = example_trips ! 0"
  unfolding parse_line_def line1_values line1_dateStr line1_dateParts
  apply (simp add: at_index_def parseInt10_arg_def parseInt10_01 orZero_def)
  apply (simp add: example_trips_def trim_def isWhiteSpace_def js_def)
  done

lemma line2_values: "split 59 (js ''999-999;02/02/2024'') = [js ''999-999'', js ''02/02/2024'']"
  by (simp add: js_def)

lemma line2_dateStr: "dateStr (js ''999-999;02/02/2024'') = js ''02/02/2024''"
  by (simp add: dateStr_def line2_values) (simp add: eval_defs)

lemma line2_dateParts: "dateParts (js ''999-999;02/02/2024'') = [js ''02'', js ''02'', js ''2024'']"
  by (simp add: dateParts_def line2_dateStr) (simp add: js_def)

lemma parse_line2: "parse_line (js ''999-999;02/02/2024'') = example_trips ! 1"
  unfolding parse_line_def line2_values line2_dateStr line2_dateParts
  apply (simp add: at_index_def parseInt10_arg_def parseInt10_02 orZero_def)
  apply (simp add: example_trips_def trim_def isWhiteSpace_def js_def)
  done

lemma parse_example: "parse_historique example_text = example_trips"
proof -
  have "trim (js ''123-456;01/01/2024'') \<noteq> []" "trim (js ''999-999;02/02/2024'') \<noteq> []"
    by (simp_all add: trim_def isWhiteSpace_def js_def)
  then have "parse_historique example_text = [example_trips ! 0, example_trips ! 1]"
    by (simp add: parse_historique_def example_lines parse_line1 parse_line2)
  then show ?thesis by (simp add: example_trips_def)
qed

section \<open>The worked example, uploaded\<close>

lemma example_state_eq:
  "example_state = initial\<lparr> proprietairesData := example_owners, historiqueData := example_trips,
                            mergedData := [example_record] \<rparr>"
proof -
  have ne: "example_owners \<noteq> []" "example_trips \<noteq> []"
    by (simp_all add: example_owners_def example_trips_def)
  have 1: "handleProprietairesUpload example_owners initial = initial\<lparr> proprietairesData := example_owners \<rparr>"
    by (simp add: handleProprietairesUpload_def merge_effect_def initial_def)
  show ?thesis
    unfolding example_state_def 1 handleHistoriqueUpload_def parse_example
    using ne by (simp add: merge_effect_def merge_example initial_def)
qed

lemma example_mergedData: "mergedData example_state = [example_record]"
  by (simp add: example_state_eq)

lemma parse_readme_line:
  "parse_line (js ''123-456;15/01/2024'') =
     \<lparr> Historique.Matricule = js ''123-456'', Historique.DateMaree = js ''15/01/2024'',
       Historique.Mois = 15, Historique.Annee = 1 \<rparr>"
proof -
  have v: "split 59 (js ''123-456;15/01/2024'') = [js ''123-456'', js ''15/01/2024'']"
    by (simp add: js_def)
  have d: "dateStr (js ''123-456;15/01/2024'') = js ''15/01/2024''"
    by (simp add: dateStr_def v) (simp add: eval_defs)
  have p: "dateParts (js ''123-456;15/01/2024'') = [js ''15'', js ''01'', js ''2024'']"
    by (simp add: dateParts_def d) (simp add: js_def)
  have m: "parseInt10 (js ''15'') = Some 15" by (simp add: eval_defs)
  show ?thesis
    unfolding parse_line_def v d p
    apply (simp add: at_index_def parseInt10_arg_def parseInt10_01 m orZero_def)
    apply (simp add: trim_def isWhiteSpace_def js_def)
    done
qed

text \<open>
  C1. The README of the repository gives the history file with dates written as day,
  month and year: its two lines are \<open>123-456;01/01/2024\<close> and \<open>123-456;15/01/2024\<close>.
  The code takes the first component of the date for the month and the second for the
  year. For the owner and the two history lines of the example the merge gives exactly
  one record, for 123-456, and none for 999-999; the record has month 1, but year 1
  where the date says 2024, since the component 2024 is never read. The second line of
  the README gets month 15 and year 1. The order of the two uploads does not matter.
\<close>

theorem example_pipeline:
  "mergedData example_state = [example_record]
   \<and> length (mergedData example_state) = 1
   \<and> Mois (mergedData example_state ! 0) = 1
   \<and> Annee (mergedData example_state ! 0) = 1
   \<and> Annee (mergedData example_state ! 0) \<noteq> 2024
   \<and> dateParts (js ''123-456;01/01/2024'') = [js ''01'', js ''01'', js ''2024'']
   \<and> Historique.Mois (parse_line (js ''123-456;15/01/2024'')) = 15
   \<and> Historique.Annee (parse_line (js ''123-456;15/01/2024'')) = 1
   \<and> mergedData (handleProprietairesUpload example_owners
                    (handleHistoriqueUpload example_text initial)) = [example_record]"
proof -
  have ne: "example_owners \<noteq> []" "example_trips \<noteq> []"
    by (simp_all add: example_owners_def example_trips_def)
  have 1: "handleHistoriqueUpload example_text initial = initial\<lparr> historiqueData := example_trips \<rparr>"
    by (simp add: handleHistoriqueUpload_def parse_example merge_effect_def initial_def)
  have "mergedData (handleProprietairesUpload example_owners
                    (handleHistoriqueUpload example_text initial)) = [example_record]"
    unfolding 1 handleProprietairesUpload_def
    using ne by (simp add: merge_effect_def merge_example initial_def)
  then show ?thesis
    by (simp add: example_mergedData line1_dateParts parse_readme_line)
       (simp add: example_record_def)
qed

theorem example_pipeline_witness:
  "length (mergedData example_state) = 1 \<and> Annee (mergedData example_state ! 0) = 1
   \<and> Historique.Annee (parse_line (js ''123-456;15/01/2024'')) = 1"
  using example_pipeline by (simp add: example_record_def)

section \<open>Dates that do not parse\<close>

lemma takeWhile_Nil_hd: "takeWhile P xs = [] \<longleftrightarrow> (case xs of [] \<Rightarrow> True | x # _ \<Rightarrow> \<not> P x)"
  by (cases xs) auto

lemma parseInt10_None: "parseInt10 c = None \<longleftrightarrow> \<not> leading_integer c"
proof -
  define S where "S = dropWhile isWhiteSpace c"
  define S' where "S' = (if S \<noteq> [] \<and> (hd S = 43 \<or> hd S = 45) then tl S else S)"
  have s': "S' = (case S of [] \<Rightarrow> [] | x # xs \<Rightarrow> if x = 43 \<or> x = 45 then xs else S)"
    by (cases S) (simp_all add: S'_def)
  have 1: "parseInt10 c = None \<longleftrightarrow> takeWhile isDigit S' = []"
    by (simp add: parseInt10_def trimStart_def Let_def S_def S'_def)
  have 2: "leading_integer c \<longleftrightarrow> (case S' of [] \<Rightarrow> False | d # _ \<Rightarrow> isDigit d)"
    unfolding leading_integer_def Let_def s' S_def ..
  show ?thesis unfolding 1 2 by (cases S') simp_all
qed

lemma parseInt10_undefined: "parseInt10 (js ''undefined'') = None"
  by (simp add: eval_defs)

lemma orZero_parse:
  "(case a of None \<Rightarrow> True | Some c \<Rightarrow> \<not> leading_integer c) \<Longrightarrow> orZero (parseInt10_arg a) = 0"
proof -
  assume a: "case a of None \<Rightarrow> True | Some c \<Rightarrow> \<not> leading_integer c"
  have "parseInt10_arg a = None"
  proof (cases a)
    case None
    then show ?thesis by (simp add: parseInt10_arg_def parseInt10_undefined)
  next
    case (Some c)
    with a have "\<not> leading_integer c" by simp
    then have "parseInt10 c = None" by (simp add: parseInt10_None)
    with Some show ?thesis by (simp add: parseInt10_arg_def)
  qed
  then show ?thesis by (simp add: orZero_def)
qed

lemma leading_integer_digit:
  assumes "leading_integer c"
  shows "\<exists>d \<in> set c. isDigit d"
proof -
  define S where "S = dropWhile isWhiteSpace c"
  define S' where "S' = (case S of [] \<Rightarrow> [] | x # xs \<Rightarrow> if x = 43 \<or> x = 45 then xs else S)"
  have "set S' \<subseteq> set S" by (cases S) (auto simp: S'_def)
  moreover have "set S \<subseteq> set c" unfolding S_def by (auto dest: set_dropWhileD)
  moreover from assms obtain d ds where "S' = d # ds" "isDigit d"
    unfolding leading_integer_def Let_def S_def [symmetric] S'_def [symmetric]
    by (cases S') auto
  ultimately show ?thesis by auto
qed

lemma parse_line_Mois:
  "Historique.Mois (parse_line line) = orZero (parseInt10_arg (at_index (dateParts line) 0))"
  by (simp add: parse_line_def Let_def)

lemma parse_line_Annee:
  "Historique.Annee (parse_line line) = orZero (parseInt10_arg (at_index (dateParts line) 1))"
  by (simp add: parse_line_def Let_def)

text \<open>
  C9, as the code has it. Every non-blank line of the history file gives a row. When the
  first component of the date, split at \<open>/\<close>, has no leading integer, the month of the
  row is 0; when the second component is missing or has no leading integer, the year is
  0. In particular both are 0 when the components hold no digit at all.
\<close>

theorem parse_line_defaults:
  "length (parse_historique text) = length (filter (\<lambda>line. trim line \<noteq> []) (split 10 text))
   \<and> ((case at_index (dateParts line) 0 of None \<Rightarrow> True | Some c \<Rightarrow> \<not> leading_integer c)
        \<longrightarrow> Historique.Mois (parse_line line) = 0)
   \<and> ((case at_index (dateParts line) 1 of None \<Rightarrow> True | Some c \<Rightarrow> \<not> leading_integer c)
        \<longrightarrow> Historique.Annee (parse_line line) = 0)
   \<and> ((\<forall>c \<in> set (take 2 (dateParts line)). \<forall>d \<in> set c. \<not> isDigit d)
        \<longrightarrow> Historique.Mois (parse_line line) = 0 \<and> Historique.Annee (parse_line line) = 0)"
proof (intro conjI impI)
  show "length (parse_historique text) = length (filter (\<lambda>line. trim line \<noteq> []) (split 10 text))"
    by (simp add: parse_historique_def)
  show "Historique.Mois (parse_line line) = 0"
    if "case at_index (dateParts line) 0 of None \<Rightarrow> True | Some c \<Rightarrow> \<not> leading_integer c"
    using orZero_parse [OF that] by (simp add: parse_line_Mois parse_line_Annee)
  show "Historique.Annee (parse_line line) = 0"
    if "case at_index (dateParts line) 1 of None \<Rightarrow> True | Some c \<Rightarrow> \<not> leading_integer c"
    using orZero_parse [OF that] by (simp add: parse_line_Annee)
  assume nd: "\<forall>c \<in> set (take 2 (dateParts line)). \<forall>d \<in> set c. \<not> isDigit d"
  have *: "case at_index (dateParts line) i of None \<Rightarrow> True | Some c \<Rightarrow> \<not> leading_integer c"
    if "i < 2" for i
  proof (cases "i < length (dateParts line)")
    case True
    with that have "dateParts line ! i \<in> set (take 2 (dateParts line))"
      by (metis in_set_conv_nth length_take min_less_iff_conj nth_take)
    with nd have "\<not> leading_integer (dateParts line ! i)"
      using leading_integer_digit by blast
    with True show ?thesis by (simp add: at_index_def)
  next
    case False
    then show ?thesis by (simp add: at_index_def)
  qed
  show "Historique.Mois (parse_line line) = 0"
    using orZero_parse [OF * [of 0]] by (simp add: parse_line_Mois parse_line_Annee)
  show "Historique.Annee (parse_line line) = 0"
    using orZero_parse [OF * [of 1]] by (simp add: parse_line_Annee)
qed

lemma abc_dateParts: "dateParts (js ''123-456;abc'') = [js ''abc'']"
proof -
  have v: "split 59 (js ''123-456;abc'') = [js ''123-456'', js ''abc'']"
    by (simp add: js_def)
  have d: "dateStr (js ''123-456;abc'') = js ''abc''"
    by (simp add: dateStr_def v) (simp add: eval_defs)
  show ?thesis by (simp add: dateParts_def d) (simp add: js_def)
qed

theorem parse_line_defaults_witness:
  "length (parse_historique example_text) = 2
   \<and> dateParts (js ''123-456;abc'') = [js ''abc'']
   \<and> Historique.Mois (parse_line (js ''123-456;abc'')) = 0
   \<and> Historique.Annee (parse_line (js ''123-456;abc'')) = 0"
proof -
  have l: "length (filter (\<lambda>line. trim line \<noteq> []) (split 10 example_text)) = 2"
    unfolding example_lines by (simp add: trim_def isWhiteSpace_def js_def)
  have a: "\<not> leading_integer (js ''abc'')"
    by (simp add: leading_integer_def isWhiteSpace_def isDigit_def js_def)
  have d: "\<forall>c \<in> set (take 2 (dateParts (js ''123-456;abc''))). \<forall>d \<in> set c. \<not> isDigit d"
    unfolding abc_dateParts by (simp add: isDigit_def js_def)
  show ?thesis
    using parse_line_defaults [of example_text "js ''123-456;abc''"] l a d
    by (simp add: abc_dateParts at_index_def)
qed

text \<open>
  C9 as stated fails for components that are not numbers but start with digits:
  \<open>parseInt\<close> reads the digits and stops at the first other code unit.
\<close>

theorem parse_line_numeric_prefix:
  "dateParts (js ''123-456;12abc/7x'') = [js ''12abc'', js ''7x'']
   \<and> \<not> list_all isDigit (js ''12abc'') \<and> \<not> list_all isDigit (js ''7x'')
   \<and> \<not> (Historique.Mois (parse_line (js ''123-456;12abc/7x'')) = 0
         \<and> Historique.Annee (parse_line (js ''123-456;12abc/7x'')) = 0)
   \<and> Historique.Mois (parse_line (js ''123-456;12abc/7x'')) = 12
   \<and> Historique.Annee (parse_line (js ''123-456;12abc/7x'')) = 7"
proof -
  have v: "split 59 (js ''123-456;12abc/7x'') = [js ''123-456'', js ''12abc/7x'']"
    by (simp add: js_def)
  have d: "dateStr (js ''123-456;12abc/7x'') = js ''12abc/7x''"
    by (simp add: dateStr_def v) (simp add: eval_defs)
  have p: "dateParts (js ''123-456;12abc/7x'') = [js ''12abc'', js ''7x'']"
    by (simp add: dateParts_def d) (simp add: js_def)
  have m: "parseInt10 (js ''12abc'') = Some 12" by (simp add: eval_defs)
  have y: "parseInt10 (js ''7x'') = Some 7" by (simp add: eval_defs)
  have n: "\<not> list_all isDigit (js ''12abc'') \<and> \<not> list_all isDigit (js ''7x'')"
    by (simp add: isDigit_def js_def)
  have "Historique.Mois (parse_line (js ''123-456;12abc/7x'')) = 12"
    unfolding parse_line_Mois p by (simp add: at_index_def parseInt10_arg_def m orZero_def)
  moreover have "Historique.Annee (parse_line (js ''123-456;12abc/7x'')) = 7"
    unfolding parse_line_Annee p by (simp add: at_index_def parseInt10_arg_def y orZero_def)
  ultimately show ?thesis using p n by simp
qed

section \<open>The text filter\<close>












lemma example_filters:
  "selectedProprietaire example_state = js ''all''" "barqueFilter example_state = []"
  "startDate example_state = []" "endDate example_state = []"
  by (simp_all add: example_state_eq initial_def)







section \<open>Copying the results\<close>








section \<open>The date filter\<close>

lemma local_day:
  assumes "- 720 \<le> tz" "tz \<le> 840"
  shows "(d * msPerDay + tz * 60000) div msPerDay = d + (if tz < 0 then - 1 else 0)"
proof -
  have "(d * 86400000 + tz * 60000) div 86400000 = d + (tz * 60000) div (86400000 :: int)"
    by (rule div_mult_self3) simp
  also have "(tz * 60000) div (86400000 :: int) = (tz * 60000) div (1440 * 60000)" by simp
  also have "\<dots> = tz div 1440" by (rule div_mult_mult2) simp
  also have "tz div 1440 = (if tz < 0 then - 1 else 0)"
  proof (cases "tz < 0")
    case True
    have "tz div 1440 = - 1"
      by (rule int_div_pos_eq [where r = "tz + 1440"]) (use True assms in simp_all)
    with True show ?thesis by simp
  next
    case False
    have "tz div 1440 = 0"
      by (rule int_div_pos_eq [where r = tz]) (use False assms in simp_all)
    with False show ?thesis by simp
  qed
  finally show ?thesis by (simp add: msPerDay_def)
qed

lemma TimeClip_small: "- 8640000000000000 \<le> t \<Longrightarrow> t \<le> 8640000000000000 \<Longrightarrow> TimeClip t = Some t"
  by (simp add: TimeClip_def)

lemma new_Date_string_eval:
  assumes "length ys = 4" "length ms = 2" "length ds = 2"
    and "list_all isDigit ys" "list_all isDigit ms" "list_all isDigit ds"
    and "1 \<le> digitsValue ms" "digitsValue ms \<le> 12" "1 \<le> digitsValue ds"
    and "digitsValue ds \<le> DaysInMonth (digitsValue ys) (digitsValue ms - 1)"
  shows "new_Date_string E (ys @ [45] @ ms @ [45] @ ds)
           = TimeClip (MakeDay (digitsValue ys) (digitsValue ms - 1) (digitsValue ds) * msPerDay)"
  using assms by (simp add: new_Date_string_def nth_append Let_def)

lemma days_example:
  "MakeDay 2024 0 1 = 19723" "MakeDay 2024 0 31 = 19753" "MakeDay 2024 1 1 = 19754"
  "MakeDay 1901 0 1 = - 25202"
  by (simp_all add: MakeDay_def DayFromYear_def monthStart_def InLeapYear_def)

lemma digits_example:
  "digitsValue (js ''2024'') = 2024" "digitsValue (js ''01'') = 1" "digitsValue (js ''31'') = 31"
  "digitsValue (js ''02'') = 2"
  "list_all isDigit (js ''2024'')" "list_all isDigit (js ''01'')" "list_all isDigit (js ''31'')"
  "list_all isDigit (js ''02'')"
  "length (js ''2024'') = 4" "length (js ''01'') = 2" "length (js ''31'') = 2" "length (js ''02'') = 2"
  by (simp_all add: digitsValue_def js_def isDigit_def)

lemma date_strings:
  "new_Date_string E (js ''2024-01-01'') = Some (19723 * msPerDay)"
  "new_Date_string E (js ''2024-01-31'') = Some (19753 * msPerDay)"
  "new_Date_string E (js ''2024-02-01'') = Some (19754 * msPerDay)"
proof -
  have s: "js ''2024-01-01'' = js ''2024'' @ [45] @ js ''01'' @ [45] @ js ''01''"
    "js ''2024-01-31'' = js ''2024'' @ [45] @ js ''01'' @ [45] @ js ''31''"
    "js ''2024-02-01'' = js ''2024'' @ [45] @ js ''02'' @ [45] @ js ''01''"
    by (simp_all add: js_def)
  have c: "TimeClip (d * msPerDay) = Some (d * msPerDay)" if "0 \<le> d" "d \<le> 20000" for d
    using that by (intro TimeClip_small) (simp_all add: msPerDay_def)
  show "new_Date_string E (js ''2024-01-01'') = Some (19723 * msPerDay)"
    unfolding s
    by (subst new_Date_string_eval)
      (simp_all add: digits_example days_example DaysInMonth_def InLeapYear_def c)
  show "new_Date_string E (js ''2024-01-31'') = Some (19753 * msPerDay)"
    unfolding s
    by (subst new_Date_string_eval)
      (simp_all add: digits_example days_example DaysInMonth_def InLeapYear_def c)
  show "new_Date_string E (js ''2024-02-01'') = Some (19754 * msPerDay)"
    unfolding s
    by (subst new_Date_string_eval)
      (simp_all add: digits_example days_example DaysInMonth_def InLeapYear_def c)
qed

lemma setHours_start:
  assumes "- 720 \<le> tz" "tz \<le> 840" "0 \<le> d" "d \<le> 20000"
  shows "setHours tz 0 0 0 0 (Some (d * msPerDay))
           = Some ((d + (if tz < 0 then - 1 else 0)) * msPerDay - tz * 60000)"
  unfolding setHours_def option.case Let_def local_day [OF assms(1,2)]
  using assms by (intro trans [OF _ TimeClip_small]) (simp_all add: msPerDay_def)

lemma setHours_end:
  assumes "- 720 \<le> tz" "tz \<le> 840" "0 \<le> d" "d \<le> 20000"
  shows "setHours tz 23 59 59 999 (Some (d * msPerDay))
           = Some ((d + (if tz < 0 then - 1 else 0)) * msPerDay + 86399999 - tz * 60000)"
  unfolding setHours_def option.case Let_def local_day [OF assms(1,2)]
  using assms by (intro trans [OF _ TimeClip_small]) (simp_all add: msPerDay_def)

lemma itemDate_1901:
  assumes "- 720 \<le> tz" "tz \<le> 840"
  shows "new_Date_ymd tz 1 0 1 = Some (- 25202 * msPerDay - tz * 60000)"
  unfolding new_Date_ymd_def Let_def
  using assms by (simp add: days_example TimeClip_def msPerDay_def)

lemma itemDate_2024:
  assumes "- 720 \<le> tz" "tz \<le> 840"
  shows "new_Date_ymd tz 2024 0 1 = Some (19723 * msPerDay - tz * 60000)"
  unfolding new_Date_ymd_def Let_def
  using assms by (simp add: days_example TimeClip_def msPerDay_def)

lemma filteredData_dates_only:
  "selectedProprietaire st = js ''all'' \<Longrightarrow> barqueFilter st = [] \<Longrightarrow>
     filteredData E tz st = filterDate E tz (startDate st) (endDate st) (mergedData st)"
  by (simp add: filteredData_def filterProprietaire_def filterBarque_def)

lemma js_nonempty:
  "js ''2024-01-01'' \<noteq> []" "js ''2024-01-31'' \<noteq> []" "js ''2024-02-01'' \<noteq> []"
  by (simp_all add: js_def)

lemma range_january:
  assumes "- 720 \<le> tz" "tz \<le> 840"
  shows "filterDate E tz (js ''2024-01-01'') (js ''2024-01-31'') [r]
           = (if date_ge (new_Date_ymd tz (Annee r) (Mois r - 1) 1)
                   (Some ((19723 + (if tz < 0 then - 1 else 0)) * msPerDay - tz * 60000))
               \<and> date_le (new_Date_ymd tz (Annee r) (Mois r - 1) 1)
                   (Some ((19753 + (if tz < 0 then - 1 else 0)) * msPerDay + 86399999 - tz * 60000))
              then [r] else [])"
  using assms
  by (simp add: filterDate_def js_nonempty date_strings setHours_start setHours_end
      inRange_def Let_def)

lemma range_from_february:
  assumes "- 720 \<le> tz" "tz \<le> 840"
  shows "filterDate E tz (js ''2024-02-01'') [] [r]
           = (if date_ge (new_Date_ymd tz (Annee r) (Mois r - 1) 1)
                   (Some ((19754 + (if tz < 0 then - 1 else 0)) * msPerDay - tz * 60000))
              then [r] else [])"
  using assms
  by (simp add: filterDate_def js_nonempty date_strings setHours_start inRange_def Let_def)

lemma example_ranges:
  assumes "- 720 \<le> tz" "tz \<le> 840"
  shows "filterDate E tz (js ''2024-01-01'') (js ''2024-01-31'') [example_record] = []"
    and "filterDate E tz (js ''2024-02-01'') [] [example_record] = []"
    and "filterDate E tz (js ''2024-01-01'') (js ''2024-01-31'') [example_record\<lparr> Annee := 2024 \<rparr>]
           = [example_record\<lparr> Annee := 2024 \<rparr>]"
    and "filterDate E tz (js ''2024-02-01'') [] [example_record\<lparr> Annee := 2024 \<rparr>] = []"
proof -
  have f: "Annee example_record = 1" "Mois example_record = 1"
    "Annee (example_record\<lparr> Annee := 2024 \<rparr>) = 2024" "Mois (example_record\<lparr> Annee := 2024 \<rparr>) = 1"
    by (simp_all add: example_record_def)
  show "filterDate E tz (js ''2024-01-01'') (js ''2024-01-31'') [example_record] = []"
    unfolding range_january [OF assms] f
    using assms by (simp add: itemDate_1901 date_ge_def date_le_def msPerDay_def)
  show "filterDate E tz (js ''2024-02-01'') [] [example_record] = []"
    unfolding range_from_february [OF assms] f
    using assms by (simp add: itemDate_1901 date_ge_def msPerDay_def)
  show "filterDate E tz (js ''2024-01-01'') (js ''2024-01-31'') [example_record\<lparr> Annee := 2024 \<rparr>]
           = [example_record\<lparr> Annee := 2024 \<rparr>]"
    unfolding range_january [OF assms] f
    using assms by (simp add: itemDate_2024 date_ge_def date_le_def msPerDay_def)
  show "filterDate E tz (js ''2024-02-01'') [] [example_record\<lparr> Annee := 2024 \<rparr>] = []"
    unfolding range_from_february [OF assms] f
    using assms by (simp add: itemDate_2024 date_ge_def msPerDay_def)
qed


lemma example_date_states:
  assumes "- 720 \<le> tz" "tz \<le> 840"
  shows "filteredData E tz (example_state\<lparr> startDate := js ''2024-01-01'',
                                          endDate := js ''2024-01-31'' \<rparr>) = []"
    and "filteredData E tz (example_state\<lparr> startDate := js ''2024-02-01'' \<rparr>) = []"
    and "filteredData E tz (example_state\<lparr> mergedData := [example_record\<lparr> Annee := 2024 \<rparr>],
             startDate := js ''2024-01-01'', endDate := js ''2024-01-31'' \<rparr>)
           = [example_record\<lparr> Annee := 2024 \<rparr>]"
    and "filteredData E tz (example_state\<lparr> mergedData := [example_record\<lparr> Annee := 2024 \<rparr>],
             startDate := js ''2024-02-01'' \<rparr>) = []"
  by (simp_all add: filteredData_dates_only example_filters example_mergedData
      example_ranges [OF assms])

text \<open>
  C3. The date of a record in the comparison is \<open>new Date(Annee, Mois - 1, 1)\<close>, the
  first day of the month and year of the record at local midnight, where a year from 0
  to 99 is taken as 1900 plus the year. The record of the worked example comes from the
  line \<open>123-456;01/01/2024\<close>, a day of January 2024 in the format of the README, but
  its year has been read as 1 from the second component of the date. Its date in the
  comparison is therefore 1 January 1901, and the range from 2024-01-01 to 2024-01-31
  drops the record instead of keeping it; the range from 2024-02-01 drops it as well.
  The local time is any fixed offset from UTC between 12 hours behind and 14 hours
  ahead.
\<close>

theorem date_range_example:
  assumes "- 720 \<le> tz" "tz \<le> 840"
  shows "mergedData example_state = [example_record]
   \<and> DateMaree example_record = js ''01/01/2024''
   \<and> new_Date_ymd tz (Annee example_record) (Mois example_record - 1) 1
       = Some (MakeDay 1901 0 1 * msPerDay - tz * 60000)
   \<and> filteredData E tz (example_state\<lparr> startDate := js ''2024-01-01'',
                                          endDate := js ''2024-01-31'' \<rparr>) = []
   \<and> example_record \<notin> set (filteredData E tz (example_state\<lparr> startDate := js ''2024-01-01'',
                                                              endDate := js ''2024-01-31'' \<rparr>))
   \<and> filteredData E tz (example_state\<lparr> startDate := js ''2024-02-01'' \<rparr>) = []"
proof -
  have "new_Date_ymd tz (Annee example_record) (Mois example_record - 1) 1
          = Some (MakeDay 1901 0 1 * msPerDay - tz * 60000)"
    by (simp add: example_record_def itemDate_1901 [OF assms] days_example)
  moreover have "DateMaree example_record = js ''01/01/2024''"
    by (simp add: example_record_def)
  ultimately show ?thesis
    by (simp add: example_mergedData example_date_states [OF assms])
qed

theorem date_range_example_witness:
  "(- 720 :: int) \<le> 60 \<and> (60 :: int) \<le> 840
   \<and> mergedData example_state = [example_record]
   \<and> filteredData plain_engine 60 (example_state\<lparr> startDate := js ''2024-01-01'',
                                                     endDate := js ''2024-01-31'' \<rparr>) = []
   \<and> filteredData plain_engine 60 (example_state\<lparr> startDate := js ''2024-02-01'' \<rparr>) = []"
proof -
  have h: "(- 720 :: int) \<le> 60" "(60 :: int) \<le> 840" by simp_all
  show ?thesis using date_range_example [OF h, of plain_engine] h by simp
qed

end
